theory Spec2Isabelle
  imports Main "HOL-Library.Word"
begin

unbundle bit_operations_syntax

section \<open>Strings, errors and the world of kishash.py\<close>

text \<open>
  A Python \<open>str\<close> is the sequence of its code points, and \<open>len\<close> counts code points.
  The model keeps that: a character is its code point (what Python's \<open>ord\<close> returns)
  and a string is the list of them. \<open>str\<close> turns a HOL literal into such a string, so
  that \<open>str ''0123456789''\<close> is the Python literal \<open>"0123456789"\<close>.
\<close>

type_synonym pychar = nat
type_synonym pystr = "pychar list"

definition str :: "string \<Rightarrow> pystr" where
  "str s = map of_char s"

text \<open>The fixed configuration (lines 20 to 23 of kishash.py).\<close>

definition POSITIONS :: "nat list" where
  "POSITIONS = [0, 4, 8, 16, 32, 64, 96, 112, 120, 127]"

definition LINE_LENGTH :: nat where
  "LINE_LENGTH = 128"

definition NUM_LINES :: nat where
  "NUM_LINES = 10"

definition DEFAULT_FILENAME :: pystr where
  "DEFAULT_FILENAME = str ''hash.hex''"

text \<open>
  Every \<open>raise\<close> of the source is a constructor:
  \<^item> \<open>ValueError_key_length\<close>: line 41, \<open>secret_key must be exactly 10 hex characters\<close>;
  \<^item> \<open>FileNotFoundError f\<close>: line 60, \<open>File 'f' not found.\<close>;
  \<^item> \<open>ValueError_line_count n\<close>: line 64, \<open>File must contain 10 lines but contains n\<close>;
  \<^item> \<open>ValueError_line_length k n\<close>: line 69, \<open>Line k has n characters; expected 128.\<close>;
  \<^item> \<open>IndexError\<close>: what Python raises when a list or string is indexed out of range
    (\<open>POSITIONS[i]\<close>, \<open>secret_key[i]\<close>, \<open>line[POSITIONS[i]]\<close>);
  \<^item> \<open>UnicodeEncodeError\<close>: what \<open>write_text(..., encoding="utf-8")\<close> of line 51 raises
    when the text holds a surrogate code point, which UTF-8 cannot encode.
\<close>

datatype error =
    ValueError_key_length
  | FileNotFoundError pystr
  | ValueError_line_count nat
  | ValueError_line_length nat nat
  | IndexError
  | UnicodeEncodeError

text \<open>One constructor for each \<open>print\<close> of the source, with the values it interpolates.\<close>

datatype message =
    File_written pystr       \<comment> \<open>line 52: \<open>[OK] File '...' written successfully.\<close>\<close>
  | Generated_key pystr      \<comment> \<open>line 53: \<open>[OK] Generated secret key: ...\<close>\<close>
  | Error_report error       \<comment> \<open>line 84: \<open>[X] Error: ...\<close>\<close>
  | Extracted_key pystr      \<comment> \<open>line 87: \<open>Extracted key: ...\<close>\<close>
  | Key_matches              \<comment> \<open>line 90: \<open>[OK] The provided key MATCHES the file.\<close>\<close>
  | Key_does_not_match       \<comment> \<open>line 92: \<open>[X] The provided key DOES NOT MATCH the file.\<close>\<close>
  | No_key_provided          \<comment> \<open>line 94: \<open>[!] No key provided for comparison. Extraction finished.\<close>\<close>

text \<open>
  The world the program acts on: the text files by path, what has been printed so far, and
  the bytes the operating system's random source will hand out next. Files hold text,
  namely what \<open>read_text\<close> returns for them: the bytes on disk, the newline translation
  and faults of the operating system (permissions, full disks, paths that are
  directories) are outside the model, so every path can be opened for writing and every
  file that exists can be read. A file is identified with the string that names it.
\<close>

record world =
  files :: "pystr \<rightharpoonup> pystr"
  stdout :: "message list"
  entropy :: "nat \<Rightarrow> 8 word"

type_synonym 'a io = "world \<Rightarrow> (error + 'a) \<times> world"

definition print :: "message \<Rightarrow> world \<Rightarrow> world" where
  "print m w = w\<lparr>stdout := stdout w @ [m]\<rparr>"

definition path_exists :: "pystr \<Rightarrow> world \<Rightarrow> bool" where
  "path_exists p w = (files w p \<noteq> None)"

text \<open>
  The surrogate code points U+D800 to U+DFFF: a Python \<open>str\<close> may hold them, UTF-8 cannot
  encode them.
\<close>

definition is_surrogate :: "pychar \<Rightarrow> bool" where
  "is_surrogate c = (0xD800 \<le> c \<and> c \<le> 0xDFFF)"

text \<open>
  \<open>Path(p).write_text(data, encoding="utf-8")\<close> opens the file for writing, which creates
  it or empties it, and then encodes and writes the text. When the text holds a surrogate
  the encoder raises before anything is written, and the file is left empty.
\<close>

definition write_text :: "pystr \<Rightarrow> pystr \<Rightarrow> unit io" where
  "write_text p data w =
     (if list_ex is_surrogate data
      then (Inl UnicodeEncodeError, w\<lparr>files := (files w)(p \<mapsto> [])\<rparr>)
      else (Inr (), w\<lparr>files := (files w)(p \<mapsto> data)\<rparr>))"

text \<open>Indexing a Python sequence with a non-negative index: out of range raises.\<close>

definition getitem :: "'a list \<Rightarrow> nat \<Rightarrow> error + 'a" where
  "getitem xs i = (if i < length xs then Inr (xs ! i) else Inl IndexError)"

section \<open>The random source: \<open>secrets.token_hex\<close>\<close>

text \<open>
  \<open>secrets.token_hex(n)\<close> takes \<open>n\<close> bytes from the operating system's random source and
  writes each as two lowercase hexadecimal digits, the high nibble first. The bytes come
  from the \<open>entropy\<close> stream of the world, which the call consumes.
\<close>

definition hexdigits :: pystr where
  "hexdigits = str ''0123456789abcdef''"

definition hexlify_byte :: "8 word \<Rightarrow> pystr" where
  "hexlify_byte b =
     [hexdigits ! unat (drop_bit 4 b AND 0x0f), hexdigits ! unat (b AND 0x0f)]"

definition hexlify :: "8 word list \<Rightarrow> pystr" where
  "hexlify bs = concat (map hexlify_byte bs)"

definition token_bytes :: "nat \<Rightarrow> world \<Rightarrow> 8 word list \<times> world" where
  "token_bytes n w = (map (entropy w) [0..<n], w\<lparr>entropy := (\<lambda>k. entropy w (k + n))\<rparr>)"

definition token_hex :: "nat \<Rightarrow> world \<Rightarrow> pystr \<times> world" where
  "token_hex n w = (case token_bytes n w of (bs, w') \<Rightarrow> (hexlify bs, w'))"

section \<open>Key generation\<close>

definition generate_secret_key :: "world \<Rightarrow> pystr \<times> world" where
  "generate_secret_key w = token_hex 5 w"

definition random_hex_line :: "world \<Rightarrow> pystr \<times> world" where
  "random_hex_line w = token_hex (LINE_LENGTH div 2) w"

text \<open>A string of lowercase hexadecimal digits.\<close>

definition is_hex :: "pystr \<Rightarrow> bool" where
  "is_hex s = list_all (\<lambda>c. c \<in> set hexdigits) s"

section \<open>Joining and splitting lines\<close>

text \<open>\<open>sep.join(xs)\<close>: the strings of \<open>xs\<close> with \<open>sep\<close> between neighbours.\<close>

fun join :: "pystr \<Rightarrow> pystr list \<Rightarrow> pystr" where
  "join sep [] = []"
| "join sep [x] = x"
| "join sep (x # y # ys) = x @ sep @ join sep (y # ys)"

definition LF :: pychar where
  "LF = 10"

definition CR :: pychar where
  "CR = 13"

text \<open>
  The line boundaries of \<open>str.splitlines\<close>: line feed, vertical tab, form feed, carriage
  return, the file, group and record separators, next line (U+0085), line separator
  (U+2028) and paragraph separator (U+2029).
\<close>

definition is_linebreak :: "pychar \<Rightarrow> bool" where
  "is_linebreak c = (c \<in> {0x0A, 0x0B, 0x0C, 0x0D, 0x1C, 0x1D, 0x1E, 0x85, 0x2028, 0x2029})"

text \<open>After a carriage return, a line feed that follows at once belongs to the same boundary.\<close>

definition skip_lf :: "pystr \<Rightarrow> pystr" where
  "skip_lf s = (case s of [] \<Rightarrow> [] | c # cs \<Rightarrow> if c = LF then cs else c # cs)"

text \<open>
  \<open>s.splitlines()\<close> without the line ends: \<open>cur\<close> holds the characters of the line being
  read. A boundary closes the line, also an empty one; the end of the text closes a line
  only when it has characters, so a text that ends in a boundary has no empty last line.
\<close>

function splitlines_from :: "pystr \<Rightarrow> pystr \<Rightarrow> pystr list" where
  "splitlines_from cur [] = (if cur = [] then [] else [cur])"
| "splitlines_from cur (c # cs) =
     (if is_linebreak c
      then cur # splitlines_from [] (if c = CR then skip_lf cs else cs)
      else splitlines_from (cur @ [c]) cs)"
  by pat_completeness auto
termination
  by (relation "measure (\<lambda>(cur, s). length s)")
     (auto simp: skip_lf_def split: list.splits)

definition splitlines :: "pystr \<Rightarrow> pystr list" where
  "splitlines s = splitlines_from [] s"

section \<open>The embedder\<close>

text \<open>
  The loop of lines 44 to 49 over the indices still to do: a fresh random line, then the
  character at \<open>POSITIONS[i]\<close> replaced by \<open>secret_key[i]\<close>, appended to \<open>lines\<close>.
\<close>

fun embed_loop :: "nat list \<Rightarrow> pystr \<Rightarrow> pystr list \<Rightarrow> pystr list io" where
  "embed_loop [] secret_key lines w = (Inr lines, w)"
| "embed_loop (i # rest) secret_key lines w =
     (case random_hex_line w of (line, w1) \<Rightarrow>
        (case getitem POSITIONS i of
           Inl e \<Rightarrow> (Inl e, w1)
         | Inr pos \<Rightarrow>
             (case getitem secret_key i of
                Inl e \<Rightarrow> (Inl e, w1)
              | Inr c \<Rightarrow>
                  embed_loop rest secret_key
                    (lines @ [take pos line @ [c] @ drop (pos + 1) line]) w1)))"

definition write_file_with_key :: "pystr \<Rightarrow> pystr \<Rightarrow> unit io" where
  "write_file_with_key secret_key filename w =
     (if length secret_key \<noteq> NUM_LINES then (Inl ValueError_key_length, w)
      else
        (case embed_loop [0..<NUM_LINES] secret_key [] w of
           (Inl e, w1) \<Rightarrow> (Inl e, w1)
         | (Inr lines, w1) \<Rightarrow>
             (case write_text filename (join [LF] lines @ [LF]) w1 of
                (Inl e, w2) \<Rightarrow> (Inl e, w2)
              | (Inr u, w2) \<Rightarrow>
                  (let w3 = print (File_written filename) w2;
                       w4 = print (Generated_key secret_key) w3
                   in (Inr (), w4)))))"

section \<open>The extractor\<close>

text \<open>
  The loop of lines 67 to 70 over the lines still to read, \<open>i\<close> the index that
  \<open>enumerate\<close> gives the first of them. \<open>extracted_chars\<close> is a list of one-character
  strings.
\<close>

fun extract_loop :: "nat \<Rightarrow> pystr list \<Rightarrow> pystr list \<Rightarrow> error + pystr list" where
  "extract_loop i [] extracted_chars = Inr extracted_chars"
| "extract_loop i (line # rest) extracted_chars =
     (if length line \<noteq> LINE_LENGTH
      then Inl (ValueError_line_length (i + 1) (length line))
      else
        (case getitem POSITIONS i of
           Inl e \<Rightarrow> Inl e
         | Inr pos \<Rightarrow>
             (case getitem line pos of
                Inl e \<Rightarrow> Inl e
              | Inr c \<Rightarrow> extract_loop (i + 1) rest (extracted_chars @ [[c]]))))"

definition extract_key_from_file :: "pystr \<Rightarrow> pystr io" where
  "extract_key_from_file filename w =
     (if \<not> path_exists filename w then (Inl (FileNotFoundError filename), w)
      else
        (let content = splitlines (the (files w filename)) in
         if length content \<noteq> NUM_LINES
         then (Inl (ValueError_line_count (length content)), w)
         else
           (case extract_loop 0 content [] of
              Inl e \<Rightarrow> (Inl e, w)
            | Inr extracted_chars \<Rightarrow> (Inr (join [] extracted_chars), w))))"

section \<open>The commands\<close>

text \<open>
  The parsed arguments: \<open>args.file\<close> (the option \<open>--file\<close>, with its default) and, for
  \<open>validate\<close>, \<open>args.key\<close> (the option \<open>--key\<close>), which is \<open>None\<close> when the option is not
  given.
\<close>

record args =
  args_file :: pystr
  args_key :: "pystr option"

text \<open>Python's truth value of an optional string: \<open>None\<close> and the empty string are false.\<close>

definition truthy :: "pystr option \<Rightarrow> bool" where
  "truthy k = (case k of None \<Rightarrow> False | Some s \<Rightarrow> s \<noteq> [])"


definition cmd_validate :: "args \<Rightarrow> unit io" where
  "cmd_validate a w =
     (case extract_key_from_file (args_file a) w of
        (Inl e, w1) \<Rightarrow> (Inr (), print (Error_report e) w1)
      | (Inr extracted, w1) \<Rightarrow>
          (let w2 = print (Extracted_key extracted) w1 in
           if truthy (args_key a)
           then (if args_key a = Some extracted
                 then (Inr (), print Key_matches w2)
                 else (Inr (), print Key_does_not_match w2))
           else (Inr (), print No_key_provided w2)))"

section \<open>Notions the properties are stated with\<close>

text \<open>
  Line \<open>i\<close> of a document carries the key: it has \<open>LINE_LENGTH\<close> characters, the one at
  offset \<open>POSITIONS[i]\<close> is character \<open>i\<close> of the key, and every other one is a lowercase
  hexadecimal digit.
\<close>

definition embeds :: "pystr \<Rightarrow> nat \<Rightarrow> pystr \<Rightarrow> bool" where
  "embeds secret_key i line =
     (length line = LINE_LENGTH
      \<and> line ! (POSITIONS ! i) = secret_key ! i
      \<and> (\<forall>j < LINE_LENGTH. j \<noteq> POSITIONS ! i \<longrightarrow> line ! j \<in> set hexdigits))"

text \<open>A string that UTF-8 can encode: none of its characters is a surrogate.\<close>

definition encodable :: "pystr \<Rightarrow> bool" where
  "encodable s = list_all (\<lambda>c. \<not> is_surrogate c) s"

text \<open>A string none of whose characters is a line boundary.\<close>

definition no_linebreak :: "pystr \<Rightarrow> bool" where
  "no_linebreak s = list_all (\<lambda>c. \<not> is_linebreak c) s"

text \<open>
  Concrete worlds for the examples: one without files, whose random source delivers the
  bytes 3, 10, 17, ...; and the same after \<open>write_file_with_key("0123456789")\<close> has written
  \<open>hash.hex\<close>.
\<close>

definition example_world :: world where
  "example_world = \<lparr>files = Map.empty, stdout = [], entropy = (\<lambda>k. of_nat (7 * k + 3))\<rparr>"

definition example_written :: world where
  "example_written = snd (write_file_with_key (str ''0123456789'') DEFAULT_FILENAME example_world)"

section \<open>Facts about the random source\<close>

lemma low_nibble_bound: "unat ((b :: 8 word) AND 0x0f) < 16"
proof -
  have "b AND 0x0f \<le> 0x0f" by (rule word_and_le1)
  then have "unat (b AND 0x0f) \<le> unat (0x0f :: 8 word)" by (simp only: word_le_nat_alt)
  then show ?thesis by simp
qed

lemma length_hexdigits: "length hexdigits = 16"
  by (simp add: hexdigits_def str_def)

lemma hexlify_byte_is_hex: "is_hex (hexlify_byte b)"
  by (simp add: is_hex_def hexlify_byte_def low_nibble_bound length_hexdigits)

lemma length_hexlify_byte: "length (hexlify_byte b) = 2"
  by (simp add: hexlify_byte_def)

lemma length_hexlify: "length (hexlify bs) = 2 * length bs"
  by (induction bs) (simp_all add: hexlify_def length_hexlify_byte)

lemma hexlify_is_hex: "is_hex (hexlify bs)"
proof (induction bs)
  case Nil
  show ?case by (simp add: hexlify_def is_hex_def)
next
  case (Cons b bs)
  have "is_hex (hexlify_byte b)" by (rule hexlify_byte_is_hex)
  with Cons show ?case by (simp add: hexlify_def is_hex_def)
qed

lemma length_token_hex: "length (fst (token_hex n w)) = 2 * n"
  by (simp add: token_hex_def token_bytes_def length_hexlify)

lemma token_hex_is_hex: "is_hex (fst (token_hex n w))"
  by (simp add: token_hex_def token_bytes_def hexlify_is_hex)

section \<open>Key generation returns ten hexadecimal digits\<close>

text \<open>
  Claim C5. On every call, whatever bytes the random source delivers, the key generator
  returns a string of exactly 10 characters, each of them one of the lowercase
  hexadecimal digits \<open>0123456789abcdef\<close>.
\<close>

theorem generate_secret_key_format:
  "length (fst (generate_secret_key w)) = 10
   \<and> (\<forall>c \<in> set (fst (generate_secret_key w)). c \<in> set (str ''0123456789abcdef''))"
proof -
  have "is_hex (fst (generate_secret_key w))"
    by (simp add: generate_secret_key_def token_hex_is_hex)
  then have "\<forall>c \<in> set (fst (generate_secret_key w)). c \<in> set (str ''0123456789abcdef'')"
    by (simp add: is_hex_def list_all_iff hexdigits_def)
  moreover have "length (fst (generate_secret_key w)) = 10"
    by (simp add: generate_secret_key_def length_token_hex)
  ultimately show ?thesis by simp
qed

theorem generate_secret_key_format_witness:
  "fst (generate_secret_key example_world) = str ''030a11181f''
   \<and> length (fst (generate_secret_key example_world)) = 10
   \<and> set (fst (generate_secret_key example_world)) \<subseteq> set (str ''0123456789abcdef'')"
proof -
  have "fst (generate_secret_key example_world) = str ''030a11181f''" by code_simp
  then show ?thesis using generate_secret_key_format[of example_world] by blast
qed

section \<open>The embedding loop\<close>

lemma positions_in_line: "i < 10 \<Longrightarrow> POSITIONS ! i < 128"
proof -
  have "list_all (\<lambda>p. p < 128) POSITIONS" by (simp add: POSITIONS_def)
  moreover have "length POSITIONS = 10" by (simp add: POSITIONS_def)
  ultimately show "i < 10 \<Longrightarrow> POSITIONS ! i < 128" by (simp add: list_all_length)
qed

lemma length_POSITIONS: "length POSITIONS = 10"
  by (simp add: POSITIONS_def)

lemma length_random_hex_line: "length (fst (random_hex_line w)) = 128"
  by (simp add: random_hex_line_def length_token_hex LINE_LENGTH_def)

lemma random_hex_line_is_hex: "is_hex (fst (random_hex_line w))"
  by (simp add: random_hex_line_def token_hex_is_hex)

lemma random_hex_line_frame:
  "files (snd (random_hex_line w)) = files w \<and> stdout (snd (random_hex_line w)) = stdout w"
  by (simp add: random_hex_line_def token_hex_def token_bytes_def)

lemma replace_char:
  assumes "length line = 128" and "pos < 128"
  shows "take pos line @ [c] @ drop (pos + 1) line = line[pos := c]"
  using assms by (simp add: upd_conv_take_nth_drop)

lemma embeds_replace:
  assumes len: "length line = 128" and hex: "is_hex line" and i: "i < 10"
    and c: "c = secret_key ! i"
  shows "embeds secret_key i (take (POSITIONS ! i) line @ [c] @ drop (POSITIONS ! i + 1) line)"
proof -
  have pos: "POSITIONS ! i < 128" using i by (rule positions_in_line)
  have eq: "take (POSITIONS ! i) line @ [c] @ drop (POSITIONS ! i + 1) line
            = line[POSITIONS ! i := c]"
    using len pos by (rule replace_char)
  have "\<forall>j<128. line ! j \<in> set hexdigits"
    using hex len by (simp add: is_hex_def list_all_length)
  then show ?thesis
    unfolding eq embeds_def using len pos c by (simp add: LINE_LENGTH_def)
qed

lemma embed_loop_result:
  assumes "\<forall>i \<in> set is. i < 10" and "length secret_key = 10"
  shows "\<exists>new w'. embed_loop is secret_key lines w = (Inr (lines @ new), w')
           \<and> list_all2 (embeds secret_key) is new
           \<and> files w' = files w \<and> stdout w' = stdout w"
  using assms
proof (induction "is" arbitrary: lines w)
  case Nil
  then show ?case by simp
next
  case (Cons i rest)
  obtain line w1 where rl: "random_hex_line w = (line, w1)" by (cases "random_hex_line w")
  have line: "length line = 128" "is_hex line" and w1: "files w1 = files w" "stdout w1 = stdout w"
    using length_random_hex_line[of w] random_hex_line_is_hex[of w] random_hex_line_frame[of w] rl
    by simp_all
  have i: "i < 10" using Cons.prems by simp
  let ?l = "take (POSITIONS ! i) line @ [secret_key ! i] @ drop (POSITIONS ! i + 1) line"
  have step: "embed_loop (i # rest) secret_key lines w = embed_loop rest secret_key (lines @ [?l]) w1"
    using rl i Cons.prems(2) by (simp add: getitem_def length_POSITIONS)
  have emb: "embeds secret_key i ?l"
    using line i by (intro embeds_replace) simp_all
  from Cons.IH[of "lines @ [?l]" w1] Cons.prems
  obtain new w' where r: "embed_loop rest secret_key (lines @ [?l]) w1 = (Inr ((lines @ [?l]) @ new), w')"
      "list_all2 (embeds secret_key) rest new" "files w' = files w1" "stdout w' = stdout w1"
    by auto
  show ?case
  proof (intro exI conjI)
    show "embed_loop (i # rest) secret_key lines w = (Inr (lines @ (?l # new)), w')"
      using step r(1) by simp
    show "list_all2 (embeds secret_key) (i # rest) (?l # new)" using emb r(2) by simp
    show "files w' = files w" using r(3) w1 by simp
    show "stdout w' = stdout w" using r(4) w1 by simp
  qed
qed


section \<open>Splitting a document into its lines\<close>

lemma LF_is_linebreak: "is_linebreak LF"
  by (simp add: is_linebreak_def LF_def)

lemma LF_not_CR: "LF \<noteq> CR"
  by (simp add: LF_def CR_def)

lemma splitlines_from_line:
  "no_linebreak l \<Longrightarrow>
   splitlines_from cur (l @ LF # rest) = (cur @ l) # splitlines_from [] rest"
proof (induction l arbitrary: cur)
  case Nil
  show ?case by (simp add: LF_is_linebreak LF_not_CR)
next
  case (Cons c l)
  then have "\<not> is_linebreak c" and "no_linebreak l" by (simp_all add: no_linebreak_def)
  with Cons.IH[of "cur @ [c]"] show ?case by simp
qed

lemma splitlines_from_lines:
  "list_all no_linebreak ls \<Longrightarrow>
   splitlines_from [] (concat (map (\<lambda>l. l @ [LF]) ls)) = ls"
proof (induction ls)
  case Nil
  show ?case by simp
next
  case (Cons l ls)
  then have l: "no_linebreak l" and ls: "list_all no_linebreak ls" by simp_all
  have "splitlines_from [] (l @ LF # concat (map (\<lambda>l. l @ [LF]) ls))
        = ([] @ l) # splitlines_from [] (concat (map (\<lambda>l. l @ [LF]) ls))"
    using l by (rule splitlines_from_line)
  with Cons.IH[OF ls] show ?case by simp
qed

lemma join_LF_terminated:
  "ls \<noteq> [] \<Longrightarrow> join [LF] ls @ [LF] = concat (map (\<lambda>l. l @ [LF]) ls)"
  by (induction "[LF]" ls rule: join.induct) simp_all

lemma splitlines_document:
  assumes "ls \<noteq> []" and "list_all no_linebreak ls"
  shows "splitlines (join [LF] ls @ [LF]) = ls"
  using assms by (simp add: splitlines_def join_LF_terminated splitlines_from_lines)

lemma join_empty_sep: "join [] xs = concat xs"
  by (induction "[] :: pystr" xs rule: join.induct) simp_all



section \<open>The extraction loop\<close>

lemma extract_loop_ok:
  assumes "i + length ls \<le> 10" and "\<forall>l \<in> set ls. length l = 128"
  shows "extract_loop i ls acc
         = Inr (acc @ map (\<lambda>k. [ls ! k ! (POSITIONS ! (i + k))]) [0..<length ls])"
  using assms
proof (induction ls arbitrary: i acc)
  case Nil
  show ?case by simp
next
  case (Cons l ls)
  have i: "i < 10" and len: "length l = 128" using Cons.prems by simp_all
  have pos: "POSITIONS ! i < 128" using i by (rule positions_in_line)
  have step: "extract_loop i (l # ls) acc = extract_loop (i + 1) ls (acc @ [[l ! (POSITIONS ! i)]])"
    using i len pos by (simp add: getitem_def length_POSITIONS LINE_LENGTH_def)
  have "extract_loop (i + 1) ls (acc @ [[l ! (POSITIONS ! i)]])
        = Inr ((acc @ [[l ! (POSITIONS ! i)]])
               @ map (\<lambda>k. [ls ! k ! (POSITIONS ! (i + 1 + k))]) [0..<length ls])"
    using Cons.prems by (intro Cons.IH) simp_all
  also have "\<dots> = Inr (acc @ map (\<lambda>k. [(l # ls) ! k ! (POSITIONS ! (i + k))]) [0..<length (l # ls)])"
    by (simp add: map_upt_Suc del: upt_Suc)
  finally show ?case using step by simp
qed

lemma extract_loop_bad_line:
  assumes "i + length ls \<le> 10" and "k < length ls" and "length (ls ! k) \<noteq> 128"
    and "\<forall>j<k. length (ls ! j) = 128"
  shows "extract_loop i ls acc = Inl (ValueError_line_length (i + k + 1) (length (ls ! k)))"
  using assms
proof (induction ls arbitrary: i k acc)
  case Nil
  then show ?case by simp
next
  case (Cons l ls)
  show ?case
  proof (cases k)
    case 0
    with Cons.prems show ?thesis by (simp add: LINE_LENGTH_def)
  next
    case (Suc k')
    have i: "i < 10" using Cons.prems by simp
    have len: "length l = 128" using Cons.prems(4) Suc by auto
    have pos: "POSITIONS ! i < 128" using i by (rule positions_in_line)
    have step: "extract_loop i (l # ls) acc = extract_loop (i + 1) ls (acc @ [[l ! (POSITIONS ! i)]])"
      using i len pos by (simp add: getitem_def length_POSITIONS LINE_LENGTH_def)
    have "extract_loop (i + 1) ls (acc @ [[l ! (POSITIONS ! i)]])
          = Inl (ValueError_line_length (i + 1 + k' + 1) (length (ls ! k')))"
    proof (rule Cons.IH)
      show "i + 1 + length ls \<le> 10" using Cons.prems(1) by simp
      show "k' < length ls" using Cons.prems(2) Suc by simp
      show "length (ls ! k') \<noteq> 128" using Cons.prems(3) Suc by simp
      show "\<forall>j<k'. length (ls ! j) = 128" using Cons.prems(4) Suc by auto
    qed
    with step Suc show ?thesis by simp
  qed
qed

section \<open>What the embedder writes\<close>

lemma embedded_lines:
  assumes len: "length secret_key = 10"
  shows "\<exists>lines w1. embed_loop [0..<NUM_LINES] secret_key [] w = (Inr lines, w1)
           \<and> files w1 = files w \<and> stdout w1 = stdout w
           \<and> length lines = 10 \<and> (\<forall>i<10. embeds secret_key i (lines ! i))"
proof -
  have "\<forall>i \<in> set [0..<NUM_LINES]. i < 10" by (simp add: NUM_LINES_def)
  from embed_loop_result[OF this len, of "[]" w]
  obtain new w' where r: "embed_loop [0..<NUM_LINES] secret_key [] w = (Inr new, w')"
    "list_all2 (embeds secret_key) [0..<NUM_LINES] new" "files w' = files w" "stdout w' = stdout w"
    by auto
  have n: "length new = 10" using r(2) by (auto simp: list_all2_conv_all_nth NUM_LINES_def)
  have e: "\<forall>i<10. embeds secret_key i (new ! i)"
    using r(2) by (auto simp: list_all2_conv_all_nth NUM_LINES_def)
  from r n e show ?thesis by blast
qed

lemma hexdigit_not_surrogate: "c \<in> set hexdigits \<Longrightarrow> \<not> is_surrogate c"
  by (auto simp: hexdigits_def str_def is_surrogate_def)

lemma encodable_iff: "encodable s \<longleftrightarrow> \<not> list_ex is_surrogate s"
  by (simp add: encodable_def list_all_iff list_ex_iff)

text \<open>A line has a surrogate exactly when the key character it carries is one.\<close>

lemma embeds_surrogate:
  assumes e: "embeds secret_key i line" and i: "i < 10"
  shows "list_ex is_surrogate line \<longleftrightarrow> is_surrogate (secret_key ! i)"
proof
  assume "list_ex is_surrogate line"
  then obtain j where j: "j < length line" "is_surrogate (line ! j)"
    by (auto simp: list_ex_length)
  show "is_surrogate (secret_key ! i)"
  proof (cases "j = POSITIONS ! i")
    case True
    with e j show ?thesis by (simp add: embeds_def)
  next
    case False
    with e j have "line ! j \<in> set hexdigits" by (simp add: embeds_def)
    with j(2) hexdigit_not_surrogate show ?thesis by blast
  qed
next
  assume s: "is_surrogate (secret_key ! i)"
  have "POSITIONS ! i < length line"
    using positions_in_line[OF i] e by (simp add: embeds_def LINE_LENGTH_def)
  moreover have "line ! (POSITIONS ! i) = secret_key ! i" using e by (simp add: embeds_def)
  ultimately show "list_ex is_surrogate line" using s by (auto simp: list_ex_length)
qed

lemma document_surrogate:
  assumes n: "length lines = 10" and e: "\<forall>i<10. embeds secret_key i (lines ! i)"
    and len: "length secret_key = 10"
  shows "list_ex is_surrogate (join [LF] lines @ [LF]) \<longleftrightarrow> list_ex is_surrogate secret_key"
proof -
  have ne: "lines \<noteq> []" using n by auto
  have "list_ex is_surrogate (join [LF] lines @ [LF])
        \<longleftrightarrow> (\<exists>l \<in> set lines. list_ex is_surrogate l)"
    unfolding join_LF_terminated[OF ne] by (auto simp: list_ex_iff LF_def is_surrogate_def)
  also have "\<dots> \<longleftrightarrow> (\<exists>i<10. list_ex is_surrogate (lines ! i))"
    using n by (metis in_set_conv_nth)
  also have "\<dots> \<longleftrightarrow> (\<exists>i<10. is_surrogate (secret_key ! i))"
    using e embeds_surrogate by blast
  also have "\<dots> \<longleftrightarrow> list_ex is_surrogate secret_key"
    using len by (auto simp: list_ex_length)
  finally show ?thesis .
qed

text \<open>With a key that UTF-8 can encode the document is written.\<close>

lemma written_lines:
  assumes len: "length secret_key = 10" and enc: "encodable secret_key"
  shows "\<exists>lines. fst (write_file_with_key secret_key filename w) = Inr ()
           \<and> files (snd (write_file_with_key secret_key filename w)) filename
               = Some (join [LF] lines @ [LF])
           \<and> length lines = 10 \<and> (\<forall>i<10. embeds secret_key i (lines ! i))"
proof -
  from embedded_lines[OF len, of w]
  obtain lines w1 where r: "embed_loop [0..<NUM_LINES] secret_key [] w = (Inr lines, w1)"
    and n: "length lines = 10" and e: "\<forall>i<10. embeds secret_key i (lines ! i)"
    by blast
  have ns: "\<not> list_ex is_surrogate (join [LF] lines @ [LF])"
    using document_surrogate[OF n e len] enc by (simp add: encodable_iff)
  have "write_file_with_key secret_key filename w
        = (Inr (), print (Generated_key secret_key) (print (File_written filename)
             (w1\<lparr>files := (files w1)(filename \<mapsto> join [LF] lines @ [LF])\<rparr>)))"
    using len r ns by (simp add: write_file_with_key_def NUM_LINES_def write_text_def Let_def)
  then have "fst (write_file_with_key secret_key filename w) = Inr ()"
    and "files (snd (write_file_with_key secret_key filename w)) filename
         = Some (join [LF] lines @ [LF])"
    by (simp_all add: print_def)
  with n e show ?thesis by blast
qed

text \<open>
  With a key of length 10 that holds a surrogate the embedder raises at line 51: the file
  is left empty and nothing is printed.
\<close>

lemma written_surrogate:
  assumes len: "length secret_key = 10" and enc: "\<not> encodable secret_key"
  shows "fst (write_file_with_key secret_key filename w) = Inl UnicodeEncodeError
         \<and> files (snd (write_file_with_key secret_key filename w)) filename = Some []
         \<and> stdout (snd (write_file_with_key secret_key filename w)) = stdout w"
proof -
  from embedded_lines[OF len, of w]
  obtain lines w1 where r: "embed_loop [0..<NUM_LINES] secret_key [] w = (Inr lines, w1)"
    and w1: "stdout w1 = stdout w"
    and n: "length lines = 10" and e: "\<forall>i<10. embeds secret_key i (lines ! i)"
    by blast
  have s: "list_ex is_surrogate (join [LF] lines @ [LF])"
    using document_surrogate[OF n e len] enc by (simp add: encodable_iff)
  have "write_file_with_key secret_key filename w
        = (Inl UnicodeEncodeError, w1\<lparr>files := (files w1)(filename \<mapsto> [])\<rparr>)"
    using len r s by (simp add: write_file_with_key_def NUM_LINES_def write_text_def)
  then show ?thesis using w1 by simp
qed



section \<open>What the extractor returns\<close>

lemma extract_key_from_file_frame: "snd (extract_key_from_file filename w) = w"
  by (simp add: extract_key_from_file_def Let_def split: sum.splits)

lemma concat_singletons: "concat (map (\<lambda>k. [f k]) xs) = map f xs"
  by (induction xs) simp_all

lemma extract_key_from_file_ok:
  assumes f: "files w filename = Some text"
    and n: "length (splitlines text) = 10"
    and l: "\<forall>l \<in> set (splitlines text). length l = 128"
  shows "fst (extract_key_from_file filename w)
         = Inr (map (\<lambda>i. splitlines text ! i ! (POSITIONS ! i)) [0..<10])"
proof -
  have "extract_loop 0 (splitlines text) []
        = Inr ([] @ map (\<lambda>k. [splitlines text ! k ! (POSITIONS ! (0 + k))])
                      [0..<length (splitlines text)])"
    using n l by (intro extract_loop_ok) simp_all
  then have "extract_loop 0 (splitlines text) []
             = Inr (map (\<lambda>k. [splitlines text ! k ! (POSITIONS ! k)]) [0..<10])"
    using n by simp
  then show ?thesis
    using f n
    by (simp add: extract_key_from_file_def path_exists_def NUM_LINES_def Let_def
        join_empty_sep concat_singletons)
qed

section \<open>Embedding, then extracting\<close>

lemma hexdigit_not_linebreak: "c \<in> set hexdigits \<Longrightarrow> \<not> is_linebreak c"
  by (auto simp: hexdigits_def str_def is_linebreak_def)

lemma is_hex_no_linebreak: "is_hex s \<Longrightarrow> no_linebreak s"
  by (auto simp: is_hex_def no_linebreak_def list_all_iff hexdigit_not_linebreak)

lemma is_hex_encodable: "is_hex s \<Longrightarrow> encodable s"
  by (auto simp: is_hex_def encodable_def list_all_iff hexdigit_not_surrogate)

lemma embeds_no_linebreak:
  assumes e: "embeds secret_key i line" and k: "\<not> is_linebreak (secret_key ! i)"
  shows "no_linebreak line"
proof -
  have "\<forall>j<length line. \<not> is_linebreak (line ! j)"
  proof (intro allI impI)
    fix j assume j: "j < length line"
    show "\<not> is_linebreak (line ! j)"
    proof (cases "j = POSITIONS ! i")
      case True
      with e k show ?thesis by (simp add: embeds_def)
    next
      case False
      with e j have "line ! j \<in> set hexdigits" by (simp add: embeds_def)
      then show ?thesis by (rule hexdigit_not_linebreak)
    qed
  qed
  then show ?thesis by (simp add: no_linebreak_def list_all_length)
qed

lemma written_document:
  assumes len: "length secret_key = 10" and nl: "no_linebreak secret_key"
    and enc: "encodable secret_key"
  shows "\<exists>doc. files (snd (write_file_with_key secret_key filename w)) filename = Some doc
           \<and> length (splitlines doc) = 10
           \<and> (\<forall>l \<in> set (splitlines doc). length l = 128)
           \<and> map (\<lambda>i. splitlines doc ! i ! (POSITIONS ! i)) [0..<10] = secret_key"
proof -
  from written_lines[OF len enc, of filename w]
  obtain lines where
    f: "files (snd (write_file_with_key secret_key filename w)) filename
          = Some (join [LF] lines @ [LF])"
    and n: "length lines = 10" and e: "\<forall>i<10. embeds secret_key i (lines ! i)"
    by blast
  let ?doc = "join [LF] lines @ [LF]"
  have key_ok: "\<forall>i<10. \<not> is_linebreak (secret_key ! i)"
    using nl len by (simp add: no_linebreak_def list_all_length)
  have "\<forall>i<length lines. no_linebreak (lines ! i)"
    using e key_ok n embeds_no_linebreak by auto
  then have all_nl: "list_all no_linebreak lines" by (simp add: list_all_length)
  have "lines \<noteq> []" using n by auto
  then have sp: "splitlines ?doc = lines"
    using all_nl by (rule splitlines_document)
  have len128: "\<forall>l \<in> set (splitlines ?doc). length l = 128"
    unfolding sp using e n by (auto simp: in_set_conv_nth embeds_def LINE_LENGTH_def)
  have "map (\<lambda>i. splitlines ?doc ! i ! (POSITIONS ! i)) [0..<10]
        = map (\<lambda>i. secret_key ! i) [0..<10]"
    unfolding sp using e by (simp add: embeds_def)
  also have "\<dots> = secret_key" using len map_nth[of secret_key] by simp
  finally have k: "map (\<lambda>i. splitlines ?doc ! i ! (POSITIONS ! i)) [0..<10] = secret_key" .
  have "length (splitlines ?doc) = 10" using sp n by simp
  with f len128 k show ?thesis by blast
qed

lemma roundtrip:
  assumes len: "length secret_key = 10" and nl: "no_linebreak secret_key"
    and enc: "encodable secret_key"
  shows "fst (write_file_with_key secret_key filename w) = Inr ()
         \<and> fst (extract_key_from_file filename
                  (snd (write_file_with_key secret_key filename w))) = Inr secret_key"
proof -
  from written_document[OF len nl enc, of filename w]
  obtain doc where d: "files (snd (write_file_with_key secret_key filename w)) filename = Some doc"
      "length (splitlines doc) = 10" "\<forall>l \<in> set (splitlines doc). length l = 128"
      "map (\<lambda>i. splitlines doc ! i ! (POSITIONS ! i)) [0..<10] = secret_key"
    by blast
  have "fst (extract_key_from_file filename (snd (write_file_with_key secret_key filename w)))
        = Inr (map (\<lambda>i. splitlines doc ! i ! (POSITIONS ! i)) [0..<10])"
    using d(1-3) by (rule extract_key_from_file_ok)
  moreover have "fst (write_file_with_key secret_key filename w) = Inr ()"
    using written_lines[OF len enc, of filename w] by auto
  ultimately show ?thesis using d(4) by simp
qed

lemma example_key:
  "length (str ''0123456789'') = 10"
  "no_linebreak (str ''0123456789'')"
  "set (str ''0123456789'') \<subseteq> set (str ''0123456789abcdef'')"
  "encodable (str ''0123456789'')"
  by (simp_all add: str_def no_linebreak_def is_linebreak_def encodable_def is_surrogate_def)

lemma example_written_document:
  "\<exists>doc. files example_written DEFAULT_FILENAME = Some doc
         \<and> length (splitlines doc) = 10
         \<and> (\<forall>l \<in> set (splitlines doc). length l = 128)
         \<and> map (\<lambda>i. splitlines doc ! i ! (POSITIONS ! i)) [0..<10] = str ''0123456789''"
  unfolding example_written_def
  using example_key(1,2,4) by (rule written_document)


text \<open>
  Claim C1. For every key of 10 hexadecimal digits, every file name and every state of the
  world (so whatever random filler the embedder draws), \<open>write_file_with_key\<close> returns
  normally, and \<open>extract_key_from_file\<close> on the world it leaves returns the key.
\<close>

theorem extract_after_write:
  assumes "length secret_key = 10" and "set secret_key \<subseteq> set (str ''0123456789abcdef'')"
  shows "fst (write_file_with_key secret_key filename w) = Inr ()
         \<and> fst (extract_key_from_file filename
                  (snd (write_file_with_key secret_key filename w))) = Inr secret_key"
proof -
  have "is_hex secret_key" using assms(2) by (auto simp: is_hex_def list_all_iff hexdigits_def)
  then have "no_linebreak secret_key" and "encodable secret_key"
    by (simp_all add: is_hex_no_linebreak is_hex_encodable)
  with assms(1) show ?thesis by (rule roundtrip)
qed

theorem extract_after_write_witness:
  "length (str ''0123456789'') = 10
   \<and> set (str ''0123456789'') \<subseteq> set (str ''0123456789abcdef'')
   \<and> fst (write_file_with_key (str ''0123456789'') DEFAULT_FILENAME example_world) = Inr ()
   \<and> fst (extract_key_from_file DEFAULT_FILENAME
            (snd (write_file_with_key (str ''0123456789'') DEFAULT_FILENAME example_world)))
       = Inr (str ''0123456789'')"
  using example_key(1,3)
    extract_after_write[OF example_key(1,3), of DEFAULT_FILENAME example_world]
  by blast

section \<open>When extraction fails\<close>

lemma extract_key_from_file_absent:
  "files w filename = None \<Longrightarrow>
   fst (extract_key_from_file filename w) = Inl (FileNotFoundError filename)"
  by (simp add: extract_key_from_file_def path_exists_def)

lemma extract_key_from_file_line_count:
  "files w filename = Some text \<Longrightarrow> length (splitlines text) \<noteq> 10 \<Longrightarrow>
   fst (extract_key_from_file filename w) = Inl (ValueError_line_count (length (splitlines text)))"
  by (simp add: extract_key_from_file_def path_exists_def NUM_LINES_def Let_def)

lemma extract_key_from_file_line_length:
  assumes f: "files w filename = Some text" and n: "length (splitlines text) = 10"
    and k: "k < 10" and bad: "length (splitlines text ! k) \<noteq> 128"
    and first: "\<forall>j<k. length (splitlines text ! j) = 128"
  shows "fst (extract_key_from_file filename w)
         = Inl (ValueError_line_length (k + 1) (length (splitlines text ! k)))"
proof -
  have "extract_loop 0 (splitlines text) []
        = Inl (ValueError_line_length (0 + k + 1) (length (splitlines text ! k)))"
    using n k bad first by (intro extract_loop_bad_line) simp_all
  then show ?thesis
    using f n by (simp add: extract_key_from_file_def path_exists_def NUM_LINES_def Let_def)
qed

lemma first_bad_line:
  assumes "\<exists>l \<in> set ls. length l \<noteq> (128::nat)"
  shows "\<exists>k<length ls. length (ls ! k) \<noteq> 128 \<and> (\<forall>j<k. length (ls ! j) = 128)"
proof -
  let ?P = "\<lambda>k. k < length ls \<and> length (ls ! k) \<noteq> 128"
  from assms have "\<exists>k. ?P k" by (auto simp: in_set_conv_nth)
  then obtain k where k: "?P k" and least: "\<forall>j<k. \<not> ?P j"
    using exists_least_iff[of ?P] by blast
  have "\<forall>j<k. length (ls ! j) = 128"
  proof (intro allI impI)
    fix j assume "j < k"
    with k least show "length (ls ! j) = 128" by auto
  qed
  with k show ?thesis by blast
qed

lemma extract_key_from_file_fails:
  "(\<exists>e. fst (extract_key_from_file filename w) = Inl e) \<longleftrightarrow>
     (files w filename = None
      \<or> (\<exists>text. files w filename = Some text
            \<and> (length (splitlines text) \<noteq> 10
                \<or> (\<exists>l \<in> set (splitlines text). length l \<noteq> 128))))"
proof (cases "files w filename")
  case None
  then show ?thesis using extract_key_from_file_absent[of w filename] by simp
next
  case (Some doc)
  show ?thesis
  proof (cases "length (splitlines doc) = 10")
    case False
    with Some extract_key_from_file_line_count[of w filename doc] show ?thesis by simp
  next
    case n: True
    show ?thesis
    proof (cases "\<forall>l \<in> set (splitlines doc). length l = 128")
      case True
      with Some n extract_key_from_file_ok[of w filename doc] show ?thesis by auto
    next
      case False
      then have "\<exists>l \<in> set (splitlines doc). length l \<noteq> 128" by simp
      from first_bad_line[OF this] n obtain k where
        "k < 10" "length (splitlines doc ! k) \<noteq> 128" "\<forall>j<k. length (splitlines doc ! j) = 128"
        by auto
      from extract_key_from_file_line_length[OF Some n this] False Some show ?thesis by auto
    qed
  qed
qed

text \<open>
  Claim C2. Extraction fails exactly when the file is absent, or the number of its lines
  (as \<open>splitlines\<close> counts them) is not 10, or some line's length is not 128. On a file of
  exactly 10 lines of 128 characters each it succeeds and returns, for \<open>i = 0..9\<close> in
  this order, the characters at offset \<open>POSITIONS[i]\<close> of line \<open>i\<close>.
\<close>

theorem extract_key_from_file_outcome:
  "((\<exists>e. fst (extract_key_from_file filename w) = Inl e) \<longleftrightarrow>
      (files w filename = None
       \<or> (\<exists>text. files w filename = Some text
             \<and> (length (splitlines text) \<noteq> 10
                 \<or> (\<exists>l \<in> set (splitlines text). length l \<noteq> 128)))))
   \<and> (\<forall>text. files w filename = Some text \<and> length (splitlines text) = 10
               \<and> (\<forall>l \<in> set (splitlines text). length l = 128)
        \<longrightarrow> fst (extract_key_from_file filename w)
            = Inr (map (\<lambda>i. splitlines text ! i ! (POSITIONS ! i)) [0..<10]))"
  using extract_key_from_file_fails[of filename w] extract_key_from_file_ok[of w filename]
  by blast

theorem extract_key_from_file_outcome_witness:
  "(\<exists>doc. files example_written DEFAULT_FILENAME = Some doc
          \<and> length (splitlines doc) = 10
          \<and> list_all (\<lambda>l. length l = 128) (splitlines doc))
   \<and> fst (extract_key_from_file DEFAULT_FILENAME example_written) = Inr (str ''0123456789'')
   \<and> files example_world DEFAULT_FILENAME = None
   \<and> (\<exists>e. fst (extract_key_from_file DEFAULT_FILENAME example_world) = Inl e)"
proof -
  note t = extract_key_from_file_outcome
  from example_written_document obtain doc where
    d: "files example_written DEFAULT_FILENAME = Some doc" "length (splitlines doc) = 10"
       "\<forall>l \<in> set (splitlines doc). length l = 128"
       "map (\<lambda>i. splitlines doc ! i ! (POSITIONS ! i)) [0..<10] = str ''0123456789''"
    by blast
  have a: "files example_world DEFAULT_FILENAME = None" by (simp add: example_world_def)
  have "fst (extract_key_from_file DEFAULT_FILENAME example_written)
        = Inr (map (\<lambda>i. splitlines doc ! i ! (POSITIONS ! i)) [0..<10])"
    using t[of DEFAULT_FILENAME example_written] d(1-3) by blast
  then have ok: "fst (extract_key_from_file DEFAULT_FILENAME example_written)
                 = Inr (str ''0123456789'')"
    using d(4) by simp
  have bad: "\<exists>e. fst (extract_key_from_file DEFAULT_FILENAME example_world) = Inl e"
    using t[of DEFAULT_FILENAME example_world] a by blast
  have "list_all (\<lambda>l. length l = 128) (splitlines doc)" using d(3) by (simp add: list_all_iff)
  with d(1,2) ok a bad show ?thesis by blast
qed

section \<open>Keys that break the document\<close>


text \<open>
  A key that starts with a line feed: the first line of the document is then cut in two,
  an empty line and one of 127 characters, and the document has 11 lines.
\<close>

lemma line_feed_first_lines:
  assumes len: "length secret_key = 10" and first: "secret_key ! 0 = LF"
    and rest: "no_linebreak (tl secret_key)" and enc: "encodable secret_key"
  shows "\<exists>doc t0 ls. files (snd (write_file_with_key secret_key filename w)) filename = Some doc
           \<and> splitlines doc = [] # t0 # ls \<and> length t0 = 127 \<and> length ls = 9"
proof -
  from written_lines[OF len enc, of filename w]
  obtain lines where
    f: "files (snd (write_file_with_key secret_key filename w)) filename
          = Some (join [LF] lines @ [LF])"
    and n: "length lines = 10" and e: "\<forall>i<10. embeds secret_key i (lines ! i)"
    by blast
  obtain l0 ls where lines: "lines = l0 # ls" using n by (cases lines) auto
  have ls: "length ls = 9" using n lines by simp
  have "embeds secret_key 0 (lines ! 0)" using e by simp
  then have e0: "embeds secret_key 0 l0" using lines by simp
  have p0: "POSITIONS ! 0 = 0" by (simp add: POSITIONS_def)
  obtain t0 where l0: "l0 = LF # t0" and t0: "length t0 = 127"
    using e0 first p0 by (cases l0) (auto simp: embeds_def LINE_LENGTH_def)
  have "\<forall>j<length t0. \<not> is_linebreak (t0 ! j)"
  proof (intro allI impI)
    fix j assume "j < length t0"
    then have "l0 ! (Suc j) \<in> set hexdigits"
      using e0 t0 p0 by (simp add: embeds_def LINE_LENGTH_def)
    then show "\<not> is_linebreak (t0 ! j)" using l0 hexdigit_not_linebreak by simp
  qed
  then have nt0: "no_linebreak t0" by (simp add: no_linebreak_def list_all_length)
  have "\<forall>i<length ls. no_linebreak (ls ! i)"
  proof (intro allI impI)
    fix i assume i: "i < length ls"
    then have "Suc i < 10" using ls by simp
    with e have "embeds secret_key (Suc i) (lines ! Suc i)" by blast
    then have "embeds secret_key (Suc i) (ls ! i)" using lines by simp
    moreover have "\<not> is_linebreak (secret_key ! Suc i)"
      using rest i ls len by (simp add: no_linebreak_def list_all_length nth_tl)
    ultimately show "no_linebreak (ls ! i)" by (rule embeds_no_linebreak)
  qed
  then have nls: "list_all no_linebreak ls" by (simp add: list_all_length)
  have "join [LF] lines @ [LF] = concat (map (\<lambda>l. l @ [LF]) lines)"
    using lines by (intro join_LF_terminated) simp
  also have "\<dots> = concat (map (\<lambda>l. l @ [LF]) ([] # t0 # ls))"
    using lines l0 by simp
  finally have eq: "join [LF] lines @ [LF] = concat (map (\<lambda>l. l @ [LF]) ([] # t0 # ls))" .
  have "list_all no_linebreak ([] # t0 # ls)"
    using nt0 nls by (simp add: no_linebreak_def)
  then have "splitlines_from [] (concat (map (\<lambda>l. l @ [LF]) ([] # t0 # ls))) = [] # t0 # ls"
    by (rule splitlines_from_lines)
  then have "splitlines (join [LF] lines @ [LF]) = [] # t0 # ls"
    unfolding splitlines_def eq .
  with f t0 ls show ?thesis by blast
qed


text \<open>The two keys of the counterexamples: \<open>"\n123456789"\<close> and \<open>"\ud800123456789"\<close>.\<close>

lemma line_feed_key:
  "length (10 # str ''123456789'') = 10"
  "(10 # str ''123456789'') ! 0 = LF"
  "no_linebreak (tl (10 # str ''123456789''))"
  "encodable (10 # str ''123456789'')"
  by (simp_all add: str_def LF_def no_linebreak_def is_linebreak_def encodable_def
      is_surrogate_def)

lemma surrogate_key:
  "length (0xD800 # str ''123456789'') = 10"
  "\<not> encodable (0xD800 # str ''123456789'')"
  by (simp_all add: str_def encodable_def is_surrogate_def)

section \<open>The document and the key-length check\<close>

lemma written_lines_split:
  assumes len: "length secret_key = 10" and nl: "no_linebreak secret_key"
    and enc: "encodable secret_key"
  shows "\<exists>lines. files (snd (write_file_with_key secret_key filename w)) filename
                   = Some (join [LF] lines @ [LF])
           \<and> splitlines (join [LF] lines @ [LF]) = lines
           \<and> length lines = 10 \<and> (\<forall>i<10. embeds secret_key i (lines ! i))"
proof -
  from written_lines[OF len enc, of filename w]
  obtain lines where
    f: "files (snd (write_file_with_key secret_key filename w)) filename
          = Some (join [LF] lines @ [LF])"
    and n: "length lines = 10" and e: "\<forall>i<10. embeds secret_key i (lines ! i)"
    by blast
  have key_ok: "\<forall>i<10. \<not> is_linebreak (secret_key ! i)"
    using nl len by (simp add: no_linebreak_def list_all_length)
  have "\<forall>i<length lines. no_linebreak (lines ! i)"
    using e key_ok n embeds_no_linebreak by auto
  then have all_nl: "list_all no_linebreak lines" by (simp add: list_all_length)
  have "lines \<noteq> []" using n by auto
  then have "splitlines (join [LF] lines @ [LF]) = lines"
    using all_nl by (rule splitlines_document)
  with f n e show ?thesis by blast
qed

text \<open>
  Claim C3 as stated fails for two kinds of key of 10 characters. For \<open>"\n123456789"\<close>
  the document has 11 lines, the first empty and the second of 127 characters. For
  \<open>"\ud800123456789"\<close> the embedder raises at line 51 and leaves the file empty.
\<close>

theorem write_file_with_key_document_counterexample:
  "length (10 # str ''123456789'') = 10
   \<and> (\<exists>doc. files (snd (write_file_with_key (10 # str ''123456789'') DEFAULT_FILENAME
                          example_world)) DEFAULT_FILENAME = Some doc
          \<and> length (splitlines doc) = 11
          \<and> length (splitlines doc ! 0) = 0
          \<and> length (splitlines doc ! 1) = 127)
   \<and> length (0xD800 # str ''123456789'') = 10
   \<and> files (snd (write_file_with_key (0xD800 # str ''123456789'') DEFAULT_FILENAME
                  example_world)) DEFAULT_FILENAME = Some []"
proof -
  from line_feed_first_lines[OF line_feed_key, of DEFAULT_FILENAME example_world]
  obtain doc t0 ls where
    f: "files (snd (write_file_with_key (10 # str ''123456789'') DEFAULT_FILENAME
                 example_world)) DEFAULT_FILENAME = Some doc"
    and sp: "splitlines doc = [] # t0 # ls" and t0: "length t0 = 127" and ls: "length ls = 9"
    by blast
  have "length (splitlines doc) = 11" "length (splitlines doc ! 0) = 0"
    "length (splitlines doc ! 1) = 127"
    using sp t0 ls by simp_all
  with f have "\<exists>doc. files (snd (write_file_with_key (10 # str ''123456789'') DEFAULT_FILENAME
                          example_world)) DEFAULT_FILENAME = Some doc
          \<and> length (splitlines doc) = 11
          \<and> length (splitlines doc ! 0) = 0
          \<and> length (splitlines doc ! 1) = 127"
    by blast
  moreover have "files (snd (write_file_with_key (0xD800 # str ''123456789'') DEFAULT_FILENAME
                  example_world)) DEFAULT_FILENAME = Some []"
    using written_surrogate[OF surrogate_key, of DEFAULT_FILENAME example_world] by blast
  ultimately show ?thesis using line_feed_key(1) surrogate_key(1) by blast
qed

text \<open>
  Claim C3, as amended. For every key of 10 characters none of which is a line boundary
  or a surrogate, the text that the embedder writes to the file is 10 lines joined by
  line feeds, with a line feed after the last, and these are the lines of the document as
  \<open>splitlines\<close> gives them; each line has exactly 128 characters; line \<open>i\<close> (counted from
  0) has \<open>key[i]\<close> at offset \<open>[0, 4, 8, 16, 32, 64, 96, 112, 120, 127][i]\<close>, and each of its
  other characters is a lowercase hexadecimal digit.
\<close>

theorem write_file_with_key_document:
  assumes "length secret_key = 10"
    and "\<forall>c \<in> set secret_key. \<not> is_linebreak c"
    and "\<forall>c \<in> set secret_key. \<not> is_surrogate c"
  shows "\<exists>lines. files (snd (write_file_with_key secret_key filename w)) filename
                   = Some (join [LF] lines @ [LF])
           \<and> splitlines (join [LF] lines @ [LF]) = lines
           \<and> length lines = 10
           \<and> (\<forall>i<10. length (lines ! i) = 128
                    \<and> lines ! i ! ([0, 4, 8, 16, 32, 64, 96, 112, 120, 127] ! i) = secret_key ! i
                    \<and> (\<forall>j<128. j \<noteq> [0, 4, 8, 16, 32, 64, 96, 112, 120, 127] ! i
                           \<longrightarrow> lines ! i ! j \<in> set (str ''0123456789abcdef'')))"
proof -
  have nl: "no_linebreak secret_key" using assms(2) by (simp add: no_linebreak_def list_all_iff)
  have enc: "encodable secret_key" using assms(3) by (simp add: encodable_def list_all_iff)
  from written_lines_split[OF assms(1) nl enc, of filename w]
  obtain lines where
    f: "files (snd (write_file_with_key secret_key filename w)) filename
          = Some (join [LF] lines @ [LF])"
    and sp: "splitlines (join [LF] lines @ [LF]) = lines"
    and n: "length lines = 10" and e: "\<forall>i<10. embeds secret_key i (lines ! i)"
    by blast
  have "\<forall>i<10. length (lines ! i) = 128
          \<and> lines ! i ! ([0, 4, 8, 16, 32, 64, 96, 112, 120, 127] ! i) = secret_key ! i
          \<and> (\<forall>j<128. j \<noteq> [0, 4, 8, 16, 32, 64, 96, 112, 120, 127] ! i
                 \<longrightarrow> lines ! i ! j \<in> set (str ''0123456789abcdef''))"
    using e unfolding embeds_def POSITIONS_def LINE_LENGTH_def hexdigits_def by blast
  with f sp n show ?thesis by blast
qed

theorem write_file_with_key_document_witness:
  "length (str ''0123456789'') = 10
   \<and> list_all (\<lambda>c. \<not> is_linebreak c) (str ''0123456789'')
   \<and> list_all (\<lambda>c. \<not> is_surrogate c) (str ''0123456789'')
   \<and> (\<exists>lines. files (snd (write_file_with_key (str ''0123456789'') DEFAULT_FILENAME example_world))
                  DEFAULT_FILENAME = Some (join [LF] lines @ [LF])
          \<and> splitlines (join [LF] lines @ [LF]) = lines
          \<and> length lines = 10
          \<and> list_all (\<lambda>l. length l = 128) lines
          \<and> map (\<lambda>i. lines ! i ! ([0, 4, 8, 16, 32, 64, 96, 112, 120, 127] ! i)) [0..<10]
              = str ''0123456789'')"
proof -
  have nl: "list_all (\<lambda>c. \<not> is_linebreak c) (str ''0123456789'')"
    using example_key(2) by (simp add: no_linebreak_def)
  have enc: "list_all (\<lambda>c. \<not> is_surrogate c) (str ''0123456789'')"
    using example_key(4) by (simp add: encodable_def)
  have h2: "\<forall>c \<in> set (str ''0123456789''). \<not> is_linebreak c"
    using nl by (simp add: list_all_iff)
  have h3: "\<forall>c \<in> set (str ''0123456789''). \<not> is_surrogate c"
    using enc by (simp add: list_all_iff)
  from write_file_with_key_document[OF example_key(1) h2 h3, of DEFAULT_FILENAME example_world]
  obtain lines where
    f: "files (snd (write_file_with_key (str ''0123456789'') DEFAULT_FILENAME example_world))
          DEFAULT_FILENAME = Some (join [LF] lines @ [LF])"
    and sp: "splitlines (join [LF] lines @ [LF]) = lines"
    and n: "length lines = 10"
    and e: "\<forall>i<10. length (lines ! i) = 128
          \<and> lines ! i ! ([0, 4, 8, 16, 32, 64, 96, 112, 120, 127] ! i) = str ''0123456789'' ! i"
    by blast
  have a: "list_all (\<lambda>l. length l = 128) lines" using e n by (simp add: list_all_length)
  have "map (\<lambda>i. lines ! i ! ([0, 4, 8, 16, 32, 64, 96, 112, 120, 127] ! i)) [0..<10]
        = map (\<lambda>i. str ''0123456789'' ! i) [0..<10]"
    using e by simp
  moreover have "map (\<lambda>i. str ''0123456789'' ! i) [0..<10] = str ''0123456789''"
    using map_nth[of "str ''0123456789''"] example_key(1) by simp
  ultimately have m: "map (\<lambda>i. lines ! i ! ([0, 4, 8, 16, 32, 64, 96, 112, 120, 127] ! i)) [0..<10]
                      = str ''0123456789''"
    by simp
  from f sp n a m have "\<exists>lines. files (snd (write_file_with_key (str ''0123456789'')
                  DEFAULT_FILENAME example_world)) DEFAULT_FILENAME = Some (join [LF] lines @ [LF])
          \<and> splitlines (join [LF] lines @ [LF]) = lines
          \<and> length lines = 10
          \<and> list_all (\<lambda>l. length l = 128) lines
          \<and> map (\<lambda>i. lines ! i ! ([0, 4, 8, 16, 32, 64, 96, 112, 120, 127] ! i)) [0..<10]
              = str ''0123456789''"
    by blast
  with example_key(1) nl enc show ?thesis by blast
qed




section \<open>The validate command\<close>

lemma extract_key_from_file_pair:
  "extract_key_from_file filename w = (fst (extract_key_from_file filename w), w)"
  using extract_key_from_file_frame[of filename w]
  by (cases "extract_key_from_file filename w") simp

lemma cmd_validate_error:
  assumes "fst (extract_key_from_file (args_file a) w) = Inl e"
  shows "cmd_validate a w = (Inr (), print (Error_report e) w)"
proof -
  have "extract_key_from_file (args_file a) w = (Inl e, w)"
    using assms extract_key_from_file_pair[of "args_file a" w] by simp
  then show ?thesis by (simp add: cmd_validate_def)
qed

lemma cmd_validate_extracted:
  assumes "fst (extract_key_from_file (args_file a) w) = Inr extracted"
  shows "cmd_validate a w
         = (Inr (),
            print (case args_key a of
                     None \<Rightarrow> No_key_provided
                   | Some k \<Rightarrow> if k = [] then No_key_provided
                              else if k = extracted then Key_matches
                              else Key_does_not_match)
              (print (Extracted_key extracted) w))"
proof -
  have "extract_key_from_file (args_file a) w = (Inr extracted, w)"
    using assms extract_key_from_file_pair[of "args_file a" w] by simp
  then show ?thesis
    by (simp add: cmd_validate_def truthy_def Let_def split: option.splits)
qed

lemma stdout_print2: "stdout (print m2 (print m1 w)) = stdout w @ [m1, m2]"
  by (simp add: print_def)


lemma cmd_validate_files: "files (snd (cmd_validate a w)) = files w"
proof (cases "fst (extract_key_from_file (args_file a) w)")
  case (Inl e)
  then show ?thesis by (simp add: cmd_validate_error print_def)
next
  case (Inr extracted)
  then show ?thesis by (simp add: cmd_validate_extracted print_def)
qed

lemma example_written_extracted:
  "fst (extract_key_from_file DEFAULT_FILENAME example_written) = Inr (str ''0123456789'')"
  unfolding example_written_def
  using roundtrip[OF example_key(1,2,4), of DEFAULT_FILENAME example_world] by simp

text \<open>
  Claim C6, as amended. When extraction succeeds, \<open>cmd_validate\<close> prints the extracted key
  and then exactly one report. With a non-empty \<open>--key\<close> the report is a match if and only
  if the key equals the extracted key, character for character, and a mismatch if and only
  if it differs. Without \<open>--key\<close>, and also with an empty \<open>--key\<close>, the report is that no
  key was provided.
\<close>

theorem cmd_validate_report:
  assumes "fst (extract_key_from_file (args_file a) w) = Inr extracted"
  shows "stdout (snd (cmd_validate a w))
         = stdout w @ [Extracted_key extracted,
                       (case args_key a of
                          None \<Rightarrow> No_key_provided
                        | Some k \<Rightarrow> if k = [] then No_key_provided
                                   else if k = extracted then Key_matches
                                   else Key_does_not_match)]"
  using assms by (simp add: cmd_validate_extracted stdout_print2)

theorem cmd_validate_report_witness:
  "fst (extract_key_from_file DEFAULT_FILENAME example_written) = Inr (str ''0123456789'')
   \<and> stdout (snd (cmd_validate \<lparr>args_file = DEFAULT_FILENAME, args_key = Some (str ''0123456789'')\<rparr>
                    example_written))
       = stdout example_written @ [Extracted_key (str ''0123456789''), Key_matches]
   \<and> stdout (snd (cmd_validate \<lparr>args_file = DEFAULT_FILENAME, args_key = Some (str ''0123456780'')\<rparr>
                    example_written))
       = stdout example_written @ [Extracted_key (str ''0123456789''), Key_does_not_match]
   \<and> stdout (snd (cmd_validate \<lparr>args_file = DEFAULT_FILENAME, args_key = None\<rparr> example_written))
       = stdout example_written @ [Extracted_key (str ''0123456789''), No_key_provided]"
proof -
  note e = example_written_extracted
  have "stdout (snd (cmd_validate \<lparr>args_file = DEFAULT_FILENAME, args_key = Some (str ''0123456789'')\<rparr>
                    example_written))
       = stdout example_written @ [Extracted_key (str ''0123456789''), Key_matches]"
    using cmd_validate_report[of "\<lparr>args_file = DEFAULT_FILENAME, args_key = Some (str ''0123456789'')\<rparr>"
        example_written "str ''0123456789''"] e
    by (simp add: str_def)
  moreover have "stdout (snd (cmd_validate \<lparr>args_file = DEFAULT_FILENAME, args_key = Some (str ''0123456780'')\<rparr>
                    example_written))
       = stdout example_written @ [Extracted_key (str ''0123456789''), Key_does_not_match]"
    using cmd_validate_report[of "\<lparr>args_file = DEFAULT_FILENAME, args_key = Some (str ''0123456780'')\<rparr>"
        example_written "str ''0123456789''"] e
    by (simp add: str_def)
  moreover have "stdout (snd (cmd_validate \<lparr>args_file = DEFAULT_FILENAME, args_key = None\<rparr> example_written))
       = stdout example_written @ [Extracted_key (str ''0123456789''), No_key_provided]"
    using cmd_validate_report[of "\<lparr>args_file = DEFAULT_FILENAME, args_key = None\<rparr>"
        example_written "str ''0123456789''"] e
    by simp
  ultimately show ?thesis using e by blast
qed

text \<open>
  Claim C6 as stated fails for the empty key: \<open>validate --key ""\<close> on a file that carries
  \<open>0123456789\<close> supplies a key that differs from the extracted one, and yet no mismatch is
  reported; the report is that no key was provided.
\<close>

theorem cmd_validate_mismatch_counterexample:
  "fst (extract_key_from_file DEFAULT_FILENAME example_written) = Inr (str ''0123456789'')
   \<and> [] \<noteq> str ''0123456789''
   \<and> cmd_validate \<lparr>args_file = DEFAULT_FILENAME, args_key = Some []\<rparr> example_written
       = (Inr (), print No_key_provided (print (Extracted_key (str ''0123456789'')) example_written))
   \<and> No_key_provided \<noteq> Key_does_not_match"
proof -
  have "cmd_validate \<lparr>args_file = DEFAULT_FILENAME, args_key = Some []\<rparr> example_written
       = (Inr (), print No_key_provided (print (Extracted_key (str ''0123456789'')) example_written))"
    using cmd_validate_extracted[of "\<lparr>args_file = DEFAULT_FILENAME, args_key = Some []\<rparr>"
        example_written "str ''0123456789''"] example_written_extracted
    by simp
  then show ?thesis using example_written_extracted by (simp add: str_def)
qed

text \<open>
  Claim C10. An empty \<open>--key\<close> is treated as no \<open>--key\<close> at all: \<open>cmd_validate\<close> does the
  same with \<open>args.key == ""\<close> as with \<open>args.key is None\<close>, and when extraction succeeds it
  reports that no key was provided, not a mismatch.
\<close>

theorem cmd_validate_empty_key:
  "cmd_validate (a\<lparr>args_key := Some []\<rparr>) w = cmd_validate (a\<lparr>args_key := None\<rparr>) w
   \<and> (\<forall>extracted. fst (extract_key_from_file (args_file a) w) = Inr extracted \<longrightarrow>
         stdout (snd (cmd_validate (a\<lparr>args_key := Some []\<rparr>) w))
         = stdout w @ [Extracted_key extracted, No_key_provided])"
proof -
  have "cmd_validate (a\<lparr>args_key := Some []\<rparr>) w = cmd_validate (a\<lparr>args_key := None\<rparr>) w"
  proof (cases "fst (extract_key_from_file (args_file a) w)")
    case (Inl e)
    then show ?thesis by (simp add: cmd_validate_error)
  next
    case (Inr extracted)
    then show ?thesis by (simp add: cmd_validate_extracted)
  qed
  moreover have "\<forall>extracted. fst (extract_key_from_file (args_file a) w) = Inr extracted \<longrightarrow>
         stdout (snd (cmd_validate (a\<lparr>args_key := Some []\<rparr>) w))
         = stdout w @ [Extracted_key extracted, No_key_provided]"
    by (simp add: cmd_validate_extracted stdout_print2)
  ultimately show ?thesis by blast
qed

theorem cmd_validate_empty_key_witness:
  "fst (extract_key_from_file DEFAULT_FILENAME example_written) = Inr (str ''0123456789'')
   \<and> stdout (snd (cmd_validate \<lparr>args_file = DEFAULT_FILENAME, args_key = Some []\<rparr> example_written))
       = stdout example_written @ [Extracted_key (str ''0123456789''), No_key_provided]
   \<and> cmd_validate \<lparr>args_file = DEFAULT_FILENAME, args_key = Some []\<rparr> example_written
       = cmd_validate \<lparr>args_file = DEFAULT_FILENAME, args_key = None\<rparr> example_written"
proof -
  let ?a = "\<lparr>args_file = DEFAULT_FILENAME, args_key = None\<rparr>"
  have upd: "?a\<lparr>args_key := Some []\<rparr> = \<lparr>args_file = DEFAULT_FILENAME, args_key = Some []\<rparr>"
    and same: "?a\<lparr>args_key := None\<rparr> = ?a" and f: "args_file ?a = DEFAULT_FILENAME"
    by simp_all
  note t = cmd_validate_empty_key[of ?a example_written, unfolded upd same f]
  from t example_written_extracted show ?thesis by blast
qed

section \<open>Errors on the two paths, and what changes the files\<close>







text \<open>
  Claim C8. The extractor leaves the world as it found it, whether it returns a key or
  raises: every file keeps its contents. \<open>cmd_validate\<close>, which also prints, changes no
  file either. The embedder is the one that creates the file: after it has run with a key
  of length 10 the file exists.
\<close>

theorem extraction_read_only:
  "snd (extract_key_from_file filename w) = w
   \<and> files (snd (cmd_validate a w)) = files w
   \<and> (length k = 10 \<longrightarrow>
        (\<exists>doc. files (snd (write_file_with_key k filename w)) filename = Some doc))"
proof -
  have "length k = 10 \<longrightarrow>
        (\<exists>doc. files (snd (write_file_with_key k filename w)) filename = Some doc)"
  proof
    assume len: "length k = 10"
    show "\<exists>doc. files (snd (write_file_with_key k filename w)) filename = Some doc"
    proof (cases "encodable k")
      case True
      from written_lines[OF len True, of filename w] show ?thesis by blast
    next
      case False
      from written_surrogate[OF len False, of filename w] show ?thesis by blast
    qed
  qed
  then show ?thesis
    using extract_key_from_file_frame[of filename w] cmd_validate_files[of a w] by blast
qed

theorem extraction_read_only_witness:
  "files example_world DEFAULT_FILENAME = None
   \<and> (\<exists>doc. files example_written DEFAULT_FILENAME = Some doc)
   \<and> snd (extract_key_from_file DEFAULT_FILENAME example_written) = example_written
   \<and> files (snd (cmd_validate \<lparr>args_file = DEFAULT_FILENAME, args_key = None\<rparr> example_written))
       = files example_written"
proof -
  have a: "files example_world DEFAULT_FILENAME = None" by (simp add: example_world_def)
  note t = extraction_read_only[of DEFAULT_FILENAME example_written _ "str ''0123456789''"]
  note u = extraction_read_only[of DEFAULT_FILENAME example_world _ "str ''0123456789''"]
  have "\<exists>doc. files example_written DEFAULT_FILENAME = Some doc"
    unfolding example_written_def using u example_key(1) by blast
  with a t show ?thesis by blast
qed

section \<open>Keys outside the hexadecimal alphabet\<close>




end
